theory Spec2Isabelle
  imports Main "HOL-Library.AList"
begin

section \<open>A model of the preprocessor, as far as \<^verbatim>\<open>mini/macros/Export.h\<close> uses it\<close>

text \<open>
  The header consists of preprocessor directives only: object-like \<^verbatim>\<open>#define\<close>s,
  one \<^verbatim>\<open>#undef\<close>, conditionals on whether a macro is defined, and one
  \<^verbatim>\<open>#include\<close>. What it computes is a macro table, from the table it is entered with.

  A replacement list is a list of preprocessing tokens. Only identifiers are subject to
  macro replacement.
\<close>

datatype tok = Ident string | Punct string | StrLit string | PPNumber string

text \<open>
  Directives. The three conditional forms of the header (\<^verbatim>\<open>#ifdef\<close>, \<^verbatim>\<open>#ifndef\<close> and
  \<^verbatim>\<open>#if defined(...)\<close>) are kept apart as the source writes them; each carries the
  group that is processed when the condition holds and the \<^verbatim>\<open>#else\<close> group (empty
  when there is none). \<open>Include\<close> carries the directives of the included file.
\<close>

datatype directive =
    Define string "tok list"
  | Undef string
  | Ifdef string "directive list" "directive list"
  | Ifndef string "directive list" "directive list"
  | IfDefined string "directive list" "directive list"
  | Include "directive list"

text \<open>
  The macro table: the object-like macros defined at some point of the translation unit,
  each with its replacement list. It is finite, and each name occurs once when the table
  is built by \<open>exec\<close> from the empty one; \<open>map_of\<close> reads it.
\<close>

type_synonym macros = "(string \<times> tok list) list"

definition defined :: "macros \<Rightarrow> string \<Rightarrow> bool" where
  "defined env n = (map_of env n \<noteq> None)"

text \<open>
  Processing directives in order. A \<^verbatim>\<open>#define\<close> of a name that is already defined
  replaces its replacement list (compilers diagnose a redefinition that differs and go on
  with the new one); an \<^verbatim>\<open>#undef\<close> of a name that is not defined does nothing.
\<close>

fun exec :: "directive \<Rightarrow> macros \<Rightarrow> macros"
  and exec_all :: "directive list \<Rightarrow> macros \<Rightarrow> macros" where
  "exec (Define n body) env = AList.update n body env"
| "exec (Undef n) env = AList.delete n env"
| "exec (Ifdef n thn els) env = (if defined env n then exec_all thn env else exec_all els env)"
| "exec (Ifndef n thn els) env = (if \<not> defined env n then exec_all thn env else exec_all els env)"
| "exec (IfDefined n thn els) env = (if defined env n then exec_all thn env else exec_all els env)"
| "exec (Include ds) env = exec_all ds env"
| "exec_all [] env = env"
| "exec_all (d # ds) env = exec_all ds (exec d env)"

text \<open>
  Macro replacement of object-like macros. An identifier that names a macro is replaced by
  the macro's replacement list, which is rescanned; while the replacement of a macro is
  rescanned, its own name is not replaced again (the list \<open>hs\<close> holds the names under
  replacement). An identifier that names no macro stays as it is.
\<close>

function expand_tok :: "macros \<Rightarrow> string list \<Rightarrow> tok \<Rightarrow> tok list" where
  "expand_tok env hs (Ident n) =
     (if n \<in> set hs then [Ident n]
      else case map_of env n of
             None \<Rightarrow> [Ident n]
           | Some body \<Rightarrow> concat (map (expand_tok env (n # hs)) body))"
| "expand_tok env hs (Punct p) = [Punct p]"
| "expand_tok env hs (StrLit s) = [StrLit s]"
| "expand_tok env hs (PPNumber s) = [PPNumber s]"
  by pat_completeness auto
termination
proof (relation "measure (\<lambda>(env, hs, t). card (fst ` set env - set hs))")
  show "wf (measure (\<lambda>(env, hs, t). card (fst ` set env - set hs)))"
    by simp
next
  fix env :: macros and hs :: "string list" and n :: string and body t
  assume fresh: "n \<notin> set hs" and def: "map_of env n = Some body"
  have "n \<in> fst ` set env"
    using def by (metis map_of_eq_None_iff option.distinct(1))
  then have "fst ` set env - set (n # hs) \<subset> fst ` set env - set hs"
    using fresh by auto
  then have "card (fst ` set env - set (n # hs)) < card (fst ` set env - set hs)"
    by (simp add: psubset_card_mono)
  then show "((env, n # hs, t), (env, hs, Ident n))
      \<in> measure (\<lambda>(env, hs, t). card (fst ` set env - set hs))"
    by simp
qed

definition expand :: "macros \<Rightarrow> tok list \<Rightarrow> tok list" where
  "expand env ts = concat (map (expand_tok env []) ts)"

section \<open>The header \<^verbatim>\<open>mini/macros/Export.h\<close>\<close>

text \<open>
  The header, section by section. The file \<^verbatim>\<open>mini/macros/cmake_macros.h\<close> it includes is
  generated by the build (\<^verbatim>\<open>configure_file\<close> in \<^verbatim>\<open>mini/CMakeLists.txt\<close>) from the template
  \<^verbatim>\<open>cmake_macros.h.in\<close>, so its directives are a parameter \<open>cm\<close>.
\<close>

definition include_cmake_macros :: "directive list \<Rightarrow> directive" where
  "include_cmake_macros cm =
     Ifndef ''MINI_USING_CUSTOM_GENRATED_MACROS'' [Include cm] []"

definition declspec :: "string \<Rightarrow> tok list" where
  "declspec a = [Ident ''__declspec'', Punct ''('', Ident a, Punct '')'']"

definition visibility :: "string \<Rightarrow> tok list" where
  "visibility v =
     [Ident ''__attribute__'', Punct ''('', Punct ''('', Ident ''__visibility__'',
      Punct ''('', StrLit v, Punct '')'', Punct '')'', Punct '')'']"

definition platform_macros :: directive where
  "platform_macros =
     Ifdef ''_WIN32''
       [Define ''MINI_HIDDEN'' [],
        IfDefined ''MINI_BUILD_SHARED_LIBS''
          [Define ''MINI_EXPORT'' (declspec ''dllexport''),
           Define ''MINI_IMPORT'' (declspec ''dllimport'')]
          [Define ''MINI_EXPORT'' [],
           Define ''MINI_IMPORT'' []]]
       [IfDefined ''__GNUC__''
          [Define ''MINI_EXPORT'' (visibility ''default''),
           Define ''MINI_HIDDEN'' (visibility ''hidden'')]
          [Define ''C10_EXPORT'' [],
           Define ''MINI_HIDDEN'' []],
        Define ''MINI_IMPORT'' [Ident ''MINI_EXPORT'']]"

definition no_export :: directive where
  "no_export =
     Ifdef ''NO_EXPORT''
       [Undef ''MINI_EXPORT'',
        Define ''MINU_EXPORT'' []]
       []"

definition api_macro :: directive where
  "api_macro =
     Ifdef ''MINI_BUILD_MAIN_LIB''
       [Define ''MINI_API'' [Ident ''MINI_EXPORT'']]
       [Define ''MINI_API'' [Ident ''MINI_IMPORT'']]"

definition Export_h :: "directive list \<Rightarrow> directive list" where
  "Export_h cm =
     [Ifndef ''TACTICS_MINI_MACROS_EXPORT_H''
        [Define ''TACTICS_MINI_MACROS_EXPORT_H'' [],
         include_cmake_macros cm,
         platform_macros,
         no_export,
         api_macro]
        []]"

text \<open>
  The macro table at line 12 of the header, where the platform is tested: the table the
  header is entered with, the include guard, and what \<^verbatim>\<open>cmake_macros.h\<close> defines.
\<close>

definition at_platform_test :: "directive list \<Rightarrow> macros \<Rightarrow> macros" where
  "at_platform_test cm env =
     exec_all [Define ''TACTICS_MINI_MACROS_EXPORT_H'' [], include_cmake_macros cm] env"

section \<open>The compilation core\<close>

text \<open>
  The build links the NVPTX and AMDGPU code generators and adds the directories
  \<^verbatim>\<open>tactics\<close>, \<^verbatim>\<open>include\<close>, \<^verbatim>\<open>lib\<close> and \<^verbatim>\<open>tools\<close> beside \<^verbatim>\<open>mini\<close>. None of their
  code is among the source files, so the definitions of this section follow the
  specification's contracts for the compilation core.
\<close>

subsection \<open>Data\<close>

text \<open>
  Modelled from the spec: the architecture family of a Target Descriptor (section 3), whose
  declaration is missing. The two supported values are \<open>NVPTX\<close> and \<open>AMDGPU\<close>; the
  Backend Selector's contract (section 4.3) provides for a family that is neither, which
  \<open>OtherFamily\<close> stands for.
\<close>

datatype arch_family = NVPTX | AMDGPU | OtherFamily string

text \<open>
  Modelled from the spec: the Target Descriptor (section 3), whose declaration is missing:
  architecture family, chip identifier string, and a set of feature-flag strings.
\<close>

record target_descriptor =
  family :: arch_family
  chip :: string
  features :: "string set"

text \<open>
  Modelled from the spec: the Operation of a Module Representation (section 3), whose
  declaration is missing: an opcode, an ordered sequence of operand references, nested
  regions (each an ordered sequence of operations), and an attribute mapping.
\<close>

datatype operation =
  Operation (opcode: string) (operands: "nat list") (regions: "operation list list")
    (attributes: "(string \<times> string) list")

text \<open>
  Modelled from the spec: the Module Representation (section 3), whose declaration is
  missing: an ordered sequence of operations.
\<close>

type_synonym module = "operation list"

text \<open>
  Modelled from the spec: the error taxonomy (section 7), whose declaration is missing.
  \<open>UnsupportedConstruct\<close> carries the target and the opcode, \<open>CodegenFailure\<close> the
  diagnostic of the emission step.
\<close>

datatype error =
    MalformedModule string
  | PassInvariantViolation string string
  | UnsupportedConstruct arch_family string
  | LegalizationFailure string string
  | CodegenFailure string
  | UnknownArchitecture

text \<open>
  Modelled from the spec: the resource-requirement metadata of a Binary Artifact
  (section 3), whose declaration is missing.
\<close>

record resource_metadata =
  registers :: nat
  shared_memory :: nat
  block_dims :: "nat list"

text \<open>
  Modelled from the spec: the Binary Artifact (section 3), whose declaration is missing:
  machine-code bytes, entry-point symbol name, resource metadata.
\<close>

record binary_artifact =
  machine_code :: "nat list"
  entry_point :: string
  resources :: resource_metadata

subsection \<open>Backend Selector\<close>

text \<open>
  Modelled from the spec: the closed set of backend variants (section 9), whose
  declaration is missing.
\<close>

datatype backend = NVPTXBackend | AMDGPUBackend

text \<open>
  Modelled from the spec: the family each backend lowers for (sections 2 and 4.4), whose
  code is missing.
\<close>

fun backend_family :: "backend \<Rightarrow> arch_family" where
  "backend_family NVPTXBackend = NVPTX"
| "backend_family AMDGPUBackend = AMDGPU"

text \<open>
  Modelled from the spec: the Backend Selector (section 4.3), whose code is missing: pure
  dispatch on the Target Descriptor's architecture family, failing with
  \<open>UnknownArchitecture\<close> if the family is not one of the two supported values.
\<close>

definition select_backend :: "target_descriptor \<Rightarrow> error + backend" where
  "select_backend T =
     (case family T of
        NVPTX \<Rightarrow> Inr NVPTXBackend
      | AMDGPU \<Rightarrow> Inr AMDGPUBackend
      | OtherFamily _ \<Rightarrow> Inl UnknownArchitecture)"

subsection \<open>Lowering backends\<close>

text \<open>
  Modelled from the spec: the target-specific lowered representation (section 4.4, step 1),
  whose declaration is missing: an operation with the target's instruction in place of the
  opcode.
\<close>

datatype lowered_op =
  LoweredOp (instruction: string) (lowered_operands: "nat list")
    (lowered_regions: "lowered_op list list")

text \<open>
  Modelled from the spec: step 1 of lowering (section 4.4), whose code is missing. Every
  operation is translated through the per-opcode translation table \<open>tab\<close> of the target
  \<open>a\<close>, the operations of its regions with it; an opcode with no registered translation
  yields \<open>UnsupportedConstruct\<close> with the target and the opcode, and ends the translation.
\<close>

fun translate_op :: "arch_family \<Rightarrow> (string \<rightharpoonup> string) \<Rightarrow> operation \<Rightarrow> error + lowered_op"
  and translate_ops ::
    "arch_family \<Rightarrow> (string \<rightharpoonup> string) \<Rightarrow> operation list \<Rightarrow> error + lowered_op list"
  and translate_regions ::
    "arch_family \<Rightarrow> (string \<rightharpoonup> string) \<Rightarrow> operation list list \<Rightarrow> error + lowered_op list list"
  where
  "translate_op a tab (Operation oc args rs attrs) =
     (case tab oc of
        None \<Rightarrow> Inl (UnsupportedConstruct a oc)
      | Some i \<Rightarrow>
          (case translate_regions a tab rs of
             Inl e \<Rightarrow> Inl e
           | Inr rs' \<Rightarrow> Inr (LoweredOp i args rs')))"
| "translate_ops a tab [] = Inr []"
| "translate_ops a tab (x # xs) =
     (case translate_op a tab x of
        Inl e \<Rightarrow> Inl e
      | Inr l \<Rightarrow>
          (case translate_ops a tab xs of
             Inl e \<Rightarrow> Inl e
           | Inr ls \<Rightarrow> Inr (l # ls)))"
| "translate_regions a tab [] = Inr []"
| "translate_regions a tab (r # rs) =
     (case translate_ops a tab r of
        Inl e \<Rightarrow> Inl e
      | Inr l \<Rightarrow>
          (case translate_regions a tab rs of
             Inl e \<Rightarrow> Inl e
           | Inr ls \<Rightarrow> Inr (l # ls)))"



text \<open>
  Modelled from the spec: what a lowering backend is made of (section 4.4), whose code is
  missing: its per-opcode translation table, its legalization (failing with the operation
  and the mismatch), the machine-code emission step it calls (an external capability that
  returns bytes or a diagnostic string), and the packaging of entry point and resource
  metadata from the lowered module.
\<close>

record backend_impl =
  translation :: "string \<rightharpoonup> string"
  legalize :: "lowered_op list \<Rightarrow> (string \<times> string) + lowered_op list"
  emit :: "lowered_op list \<Rightarrow> string \<Rightarrow> string set \<Rightarrow> string + nat list"
  entry_name :: "lowered_op list \<Rightarrow> string"
  metadata :: "lowered_op list \<Rightarrow> resource_metadata"

text \<open>
  Modelled from the spec: the one operation of a lowering backend (section 4.4), whose code
  is missing: translate, legalize, emit and package, in this order, the first failure
  being the result.
\<close>

definition lower ::
  "backend \<Rightarrow> backend_impl \<Rightarrow> module \<Rightarrow> target_descriptor \<Rightarrow> error + binary_artifact" where
  "lower b impl M T =
     (case translate_ops (backend_family b) (translation impl) M of
        Inl e \<Rightarrow> Inl e
      | Inr L \<Rightarrow>
          (case legalize impl L of
             Inl (opn, mismatch) \<Rightarrow> Inl (LegalizationFailure opn mismatch)
           | Inr L' \<Rightarrow>
               (case emit impl L' (chip T) (features T) of
                  Inl diagnostic \<Rightarrow> Inl (CodegenFailure diagnostic)
                | Inr bytes \<Rightarrow>
                    Inr \<lparr>machine_code = bytes, entry_point = entry_name impl L',
                         resources = metadata impl L'\<rparr>)))"

text \<open>
  Modelled from the spec: the route from the Backend Selector to the chosen backend
  (section 2, control flow), whose code is missing.
\<close>

definition dispatch ::
  "(backend \<Rightarrow> backend_impl) \<Rightarrow> module \<Rightarrow> target_descriptor \<Rightarrow> error + binary_artifact" where
  "dispatch impls M T =
     (case select_backend T of
        Inl e \<Rightarrow> Inl e
      | Inr b \<Rightarrow> lower b (impls b) M T)"

subsection \<open>Kernel Cache\<close>

text \<open>
  Modelled from the spec: the Cache Entry's compilation state (section 3), whose
  declaration is missing. A ready entry holds the reference to its Binary Artifact, a
  failed one the error.
\<close>

datatype cache_entry = Pending | Ready nat | Failed error

text \<open>
  Modelled from the spec: the Kernel Cache (sections 3 and 4.6), whose declaration is
  missing: the mapping from (fingerprint, target key) to entries. Binary Artifacts are
  shared by reference, so they are held in a store and referred to by their index in it.
  \<open>compile_calls\<close> counts the invocations of \<open>compileFn\<close>; it is there to state how
  often the compile path runs.
\<close>

record ('f, 'k) kernel_cache =
  entries :: "('f \<times> 'k) \<rightharpoonup> cache_entry"
  artifacts :: "binary_artifact list"
  compile_calls :: nat

text \<open>
  Modelled from the spec: \<open>getOrCompile\<close> (section 4.6), whose code is missing, for one
  caller at a time. The fingerprint of Modules and the canonical key of Target Descriptors
  are parameters, the spec giving no algorithm for either. A ready entry gives its
  artifact, with no recompilation; a failed entry gives its error, with no retry; a caller
  that finds a pending entry waits for another caller to resolve it, and with no other
  caller does not return (\<open>None\<close>). With no entry, a pending one is created, \<open>compileFn\<close>
  is invoked, and the entry becomes ready with the artifact or failed with the error.
\<close>

definition getOrCompile ::
  "(module \<Rightarrow> 'f) \<Rightarrow> (target_descriptor \<Rightarrow> 'k) \<Rightarrow> module \<Rightarrow> target_descriptor \<Rightarrow>
   (module \<Rightarrow> target_descriptor \<Rightarrow> error + binary_artifact) \<Rightarrow> ('f, 'k) kernel_cache \<Rightarrow>
   ((error + nat) \<times> ('f, 'k) kernel_cache) option" where
  "getOrCompile fingerprint canonicalKey M T compileFn c =
     (let key = (fingerprint M, canonicalKey T) in
      case entries c key of
        Some (Ready r) \<Rightarrow> Some (Inr r, c)
      | Some Pending \<Rightarrow> None
      | Some (Failed e) \<Rightarrow> Some (Inl e, c)
      | None \<Rightarrow>
          (let c1 = c\<lparr>entries := (entries c)(key \<mapsto> Pending)\<rparr>;
               c2 = c1\<lparr>compile_calls := compile_calls c1 + 1\<rparr>
           in case compileFn M T of
                Inr a \<Rightarrow>
                  (let r = length (artifacts c2)
                   in Some (Inr r, c2\<lparr>artifacts := artifacts c2 @ [a],
                                      entries := (entries c2)(key \<mapsto> Ready r)\<rparr>))
              | Inl e \<Rightarrow> Some (Inl e, c2\<lparr>entries := (entries c2)(key \<mapsto> Failed e)\<rparr>)))"

section \<open>Facts about the macro table\<close>

lemma map_of_update_eq:
  "map_of (AList.update k v al) k' = (if k' = k then Some v else map_of al k')"
  by (simp add: update_conv')

lemma map_of_delete_eq:
  "map_of (AList.delete k al) k' = (if k' = k then None else map_of al k')"
  by (simp add: delete_conv')

lemma defined_update: "defined (AList.update k v al) k' = (k' = k \<or> defined al k')"
  by (simp add: defined_def map_of_update_eq)

lemma defined_delete: "defined (AList.delete k al) k' = (k' \<noteq> k \<and> defined al k')"
  by (simp add: defined_def map_of_delete_eq)

text \<open>A macro whose replacement list is one identifier that names no macro.\<close>

lemma expand_alias:
  "map_of env a = Some [Ident b] \<Longrightarrow> \<not> defined env b \<Longrightarrow> expand env [Ident a] = [Ident b]"
  by (simp add: expand_def defined_def)

text \<open>The same through one more macro.\<close>

lemma expand_alias2:
  "map_of env a = Some [Ident b] \<Longrightarrow> map_of env b = Some [Ident c] \<Longrightarrow> \<not> defined env c
    \<Longrightarrow> expand env [Ident a] = [Ident c]"
  by (auto simp: expand_def defined_def)

text \<open>
  On its first inclusion the header runs its three sections on the table found at the
  platform test.
\<close>

lemma Export_h_first:
  "\<not> defined env ''TACTICS_MINI_MACROS_EXPORT_H'' \<Longrightarrow>
     exec_all (Export_h cm) env =
     exec_all [platform_macros, no_export, api_macro] (at_platform_test cm env)"
  by (simp add: Export_h_def at_platform_test_def)

lemmas header_simps =
  platform_macros_def no_export_def api_macro_def
  map_of_update_eq map_of_delete_eq defined_update defined_delete

lemma sections_without_GNUC:
  assumes "\<not> defined E ''_WIN32''" and "\<not> defined E ''__GNUC__''"
    and "\<not> defined E ''MINI_EXPORT'' \<or> defined E ''NO_EXPORT''"
    and "env' = exec_all [platform_macros, no_export, api_macro] E"
  shows "map_of env' ''C10_EXPORT'' = Some []"
    and "map_of env' ''MINI_HIDDEN'' = Some []"
    and "\<not> defined env' ''MINI_EXPORT''"
    and "map_of env' ''MINI_IMPORT'' = Some [Ident ''MINI_EXPORT'']"
    and "map_of env' ''MINI_API'' =
      Some [Ident (if defined E ''MINI_BUILD_MAIN_LIB'' then ''MINI_EXPORT'' else ''MINI_IMPORT'')]"
  using assms by (auto simp: header_simps)

lemma sections_NO_EXPORT:
  assumes "defined E ''NO_EXPORT''"
    and "env' = exec_all [platform_macros, no_export, api_macro] E"
  shows "\<not> defined env' ''MINI_EXPORT''"
    and "map_of env' ''MINU_EXPORT'' = Some []"
    and "\<not> defined E ''_WIN32'' \<Longrightarrow> map_of env' ''MINI_IMPORT'' = Some [Ident ''MINI_EXPORT'']"
    and "defined E ''_WIN32'' \<Longrightarrow> map_of env' ''MINI_IMPORT'' =
      Some (if defined E ''MINI_BUILD_SHARED_LIBS'' then declspec ''dllimport'' else [])"
    and "map_of env' ''MINI_API'' =
      Some [Ident (if defined E ''MINI_BUILD_MAIN_LIB'' then ''MINI_EXPORT'' else ''MINI_IMPORT'')]"
  using assms by (simp_all add: header_simps)

section \<open>The export macros on a platform that is neither Windows nor GNU C\<close>

text \<open>
  Claim C9. On the first inclusion of \<^verbatim>\<open>Export.h\<close> in a translation unit where neither
  \<^verbatim>\<open>_WIN32\<close> nor \<^verbatim>\<open>__GNUC__\<close> is defined when the platform is tested, and where nothing
  outside the header defines \<^verbatim>\<open>MINI_EXPORT\<close> (or \<^verbatim>\<open>NO_EXPORT\<close> is defined, which removes
  such a definition), the header defines \<^verbatim>\<open>C10_EXPORT\<close> and
  \<^verbatim>\<open>MINI_HIDDEN\<close>, both with an empty replacement list, and leaves \<^verbatim>\<open>MINI_EXPORT\<close>
  undefined; \<^verbatim>\<open>MINI_IMPORT\<close> is defined as \<^verbatim>\<open>MINI_EXPORT\<close>, and both \<^verbatim>\<open>MINI_IMPORT\<close> and
  \<^verbatim>\<open>MINI_API\<close> expand to the identifier \<^verbatim>\<open>MINI_EXPORT\<close>, not to nothing.
\<close>

theorem Export_h_without_GNUC:
  assumes first: "\<not> defined env ''TACTICS_MINI_MACROS_EXPORT_H''"
    and not_windows: "\<not> defined (at_platform_test cm env) ''_WIN32''"
    and not_gnuc: "\<not> defined (at_platform_test cm env) ''__GNUC__''"
    and not_predefined: "\<not> defined (at_platform_test cm env) ''MINI_EXPORT'' \<or>
      defined (at_platform_test cm env) ''NO_EXPORT''"
    and result: "env' = exec_all (Export_h cm) env"
  shows "map_of env' ''C10_EXPORT'' = Some [] \<and>
         map_of env' ''MINI_HIDDEN'' = Some [] \<and>
         \<not> defined env' ''MINI_EXPORT'' \<and>
         map_of env' ''MINI_IMPORT'' = Some [Ident ''MINI_EXPORT''] \<and>
         expand env' [Ident ''MINI_IMPORT''] = [Ident ''MINI_EXPORT''] \<and>
         expand env' [Ident ''MINI_API''] = [Ident ''MINI_EXPORT''] \<and>
         expand env' [Ident ''MINI_API''] \<noteq> []"
proof -
  have env': "env' = exec_all [platform_macros, no_export, api_macro] (at_platform_test cm env)"
    using first result by (simp add: Export_h_first)
  note s = sections_without_GNUC [OF not_windows not_gnuc not_predefined env']
  have imp: "expand env' [Ident ''MINI_IMPORT''] = [Ident ''MINI_EXPORT'']"
    using s(4) s(3) by (rule expand_alias)
  have api: "expand env' [Ident ''MINI_API''] = [Ident ''MINI_EXPORT'']"
  proof (cases "defined (at_platform_test cm env) ''MINI_BUILD_MAIN_LIB''")
    case True
    with s(5) have "map_of env' ''MINI_API'' = Some [Ident ''MINI_EXPORT'']" by simp
    then show ?thesis using s(3) by (rule expand_alias)
  next
    case False
    with s(5) have "map_of env' ''MINI_API'' = Some [Ident ''MINI_IMPORT'']" by simp
    then show ?thesis using s(4) s(3) by (rule expand_alias2)
  qed
  show ?thesis using s(1) s(2) s(3) s(4) imp api by simp
qed

text \<open>
  The theorem at a build with shared libraries on such a platform: nothing is predefined,
  and \<^verbatim>\<open>cmake_macros.h\<close> defines \<^verbatim>\<open>MINI_BUILD_SHARED_LIBS\<close>.
\<close>

theorem Export_h_without_GNUC_witness:
  "\<not> defined [] ''TACTICS_MINI_MACROS_EXPORT_H'' \<and>
   \<not> defined (at_platform_test [Define ''MINI_BUILD_SHARED_LIBS'' []] []) ''_WIN32'' \<and>
   \<not> defined (at_platform_test [Define ''MINI_BUILD_SHARED_LIBS'' []] []) ''__GNUC__'' \<and>
   \<not> defined (at_platform_test [Define ''MINI_BUILD_SHARED_LIBS'' []] []) ''MINI_EXPORT'' \<and>
   map_of (exec_all (Export_h [Define ''MINI_BUILD_SHARED_LIBS'' []]) []) ''C10_EXPORT'' = Some [] \<and>
   \<not> defined (exec_all (Export_h [Define ''MINI_BUILD_SHARED_LIBS'' []]) []) ''MINI_EXPORT'' \<and>
   expand (exec_all (Export_h [Define ''MINI_BUILD_SHARED_LIBS'' []]) []) [Ident ''MINI_API'']
     = [Ident ''MINI_EXPORT'']"
proof -
  have h1: "\<not> defined [] ''TACTICS_MINI_MACROS_EXPORT_H''"
    by (simp add: defined_def)
  have h2: "\<not> defined (at_platform_test [Define ''MINI_BUILD_SHARED_LIBS'' []] []) ''_WIN32''"
    by (simp add: at_platform_test_def include_cmake_macros_def defined_def)
  have h3: "\<not> defined (at_platform_test [Define ''MINI_BUILD_SHARED_LIBS'' []] []) ''__GNUC__''"
    by (simp add: at_platform_test_def include_cmake_macros_def defined_def)
  have h4: "\<not> defined (at_platform_test [Define ''MINI_BUILD_SHARED_LIBS'' []] []) ''MINI_EXPORT''"
    by (simp add: at_platform_test_def include_cmake_macros_def defined_def)
  show ?thesis
    using Export_h_without_GNUC [OF h1 h2 h3 disjI1 [OF h4] refl] h1 h2 h3 h4 by simp
qed

section \<open>The export macros under \<^verbatim>\<open>NO_EXPORT\<close>\<close>

text \<open>
  Claim C10, as stated, at a static Windows build with \<^verbatim>\<open>NO_EXPORT\<close>: the header is read
  for the first time and \<^verbatim>\<open>NO_EXPORT\<close> is defined, but \<^verbatim>\<open>MINI_IMPORT\<close> and \<^verbatim>\<open>MINI_API\<close>
  expand to nothing, not to the identifier \<^verbatim>\<open>MINI_EXPORT\<close>: on Windows \<^verbatim>\<open>MINI_IMPORT\<close> has
  a replacement list of its own.
\<close>

theorem Export_h_NO_EXPORT_counterexample:
  "\<not> defined [(''_WIN32'', [PPNumber ''1'']), (''NO_EXPORT'', [])] ''TACTICS_MINI_MACROS_EXPORT_H'' \<and>
   defined (at_platform_test [] [(''_WIN32'', [PPNumber ''1'']), (''NO_EXPORT'', [])]) ''NO_EXPORT'' \<and>
   expand (exec_all (Export_h []) [(''_WIN32'', [PPNumber ''1'']), (''NO_EXPORT'', [])])
     [Ident ''MINI_IMPORT''] = [] \<and>
   expand (exec_all (Export_h []) [(''_WIN32'', [PPNumber ''1'']), (''NO_EXPORT'', [])])
     [Ident ''MINI_API''] = [] \<and>
   expand (exec_all (Export_h []) [(''_WIN32'', [PPNumber ''1'']), (''NO_EXPORT'', [])])
     [Ident ''MINI_IMPORT''] \<noteq> [Ident ''MINI_EXPORT''] \<and>
   expand (exec_all (Export_h []) [(''_WIN32'', [PPNumber ''1'']), (''NO_EXPORT'', [])])
     [Ident ''MINI_API''] \<noteq> [Ident ''MINI_EXPORT'']"
  by (simp add: Export_h_def at_platform_test_def include_cmake_macros_def header_simps
      defined_def expand_def)

text \<open>
  Claim C10, amended. On the first inclusion of \<^verbatim>\<open>Export.h\<close> with \<^verbatim>\<open>NO_EXPORT\<close> defined,
  the header removes any definition of \<^verbatim>\<open>MINI_EXPORT\<close> and defines \<^verbatim>\<open>MINU_EXPORT\<close>, so
  \<^verbatim>\<open>MINI_EXPORT\<close> is undefined afterwards. Where \<^verbatim>\<open>_WIN32\<close> is not defined, \<^verbatim>\<open>MINI_IMPORT\<close>
  and \<^verbatim>\<open>MINI_API\<close> expand to the identifier \<^verbatim>\<open>MINI_EXPORT\<close>. Where \<^verbatim>\<open>_WIN32\<close> is defined,
  \<^verbatim>\<open>MINI_IMPORT\<close> is \<^verbatim>\<open>__declspec(dllimport)\<close> with \<^verbatim>\<open>MINI_BUILD_SHARED_LIBS\<close> and empty
  without; \<^verbatim>\<open>MINI_API\<close> expands to the identifier \<^verbatim>\<open>MINI_EXPORT\<close> with
  \<^verbatim>\<open>MINI_BUILD_MAIN_LIB\<close> and is defined as \<^verbatim>\<open>MINI_IMPORT\<close> without.
\<close>

theorem Export_h_NO_EXPORT:
  assumes first: "\<not> defined env ''TACTICS_MINI_MACROS_EXPORT_H''"
    and no_exp: "defined (at_platform_test cm env) ''NO_EXPORT''"
    and entry: "E = at_platform_test cm env"
    and result: "env' = exec_all (Export_h cm) env"
  shows "\<not> defined env' ''MINI_EXPORT'' \<and>
         map_of env' ''MINU_EXPORT'' = Some [] \<and>
         (\<not> defined E ''_WIN32'' \<longrightarrow>
            expand env' [Ident ''MINI_IMPORT''] = [Ident ''MINI_EXPORT''] \<and>
            expand env' [Ident ''MINI_API''] = [Ident ''MINI_EXPORT'']) \<and>
         (defined E ''_WIN32'' \<longrightarrow>
            map_of env' ''MINI_IMPORT'' =
              Some (if defined E ''MINI_BUILD_SHARED_LIBS'' then declspec ''dllimport'' else []) \<and>
            (defined E ''MINI_BUILD_MAIN_LIB'' \<longrightarrow>
               expand env' [Ident ''MINI_API''] = [Ident ''MINI_EXPORT'']) \<and>
            (\<not> defined E ''MINI_BUILD_MAIN_LIB'' \<longrightarrow>
               map_of env' ''MINI_API'' = Some [Ident ''MINI_IMPORT'']))"
proof -
  have no_exp': "defined E ''NO_EXPORT''"
    using no_exp entry by simp
  have env': "env' = exec_all [platform_macros, no_export, api_macro] E"
    using first result entry by (simp add: Export_h_first)
  note s = sections_NO_EXPORT [OF no_exp' env']
  have unix: "expand env' [Ident ''MINI_IMPORT''] = [Ident ''MINI_EXPORT''] \<and>
      expand env' [Ident ''MINI_API''] = [Ident ''MINI_EXPORT'']"
    if nw: "\<not> defined E ''_WIN32''"
  proof -
    have imp: "map_of env' ''MINI_IMPORT'' = Some [Ident ''MINI_EXPORT'']"
      using s(3) nw by simp
    have "expand env' [Ident ''MINI_API''] = [Ident ''MINI_EXPORT'']"
    proof (cases "defined E ''MINI_BUILD_MAIN_LIB''")
      case True
      with s(5) have "map_of env' ''MINI_API'' = Some [Ident ''MINI_EXPORT'']" by simp
      then show ?thesis using s(1) by (rule expand_alias)
    next
      case False
      with s(5) have "map_of env' ''MINI_API'' = Some [Ident ''MINI_IMPORT'']" by simp
      then show ?thesis using imp s(1) by (rule expand_alias2)
    qed
    moreover have "expand env' [Ident ''MINI_IMPORT''] = [Ident ''MINI_EXPORT'']"
      using imp s(1) by (rule expand_alias)
    ultimately show ?thesis by simp
  qed
  have main: "expand env' [Ident ''MINI_API''] = [Ident ''MINI_EXPORT'']"
    if "defined E ''MINI_BUILD_MAIN_LIB''"
  proof -
    from that s(5) have "map_of env' ''MINI_API'' = Some [Ident ''MINI_EXPORT'']" by simp
    then show ?thesis using s(1) by (rule expand_alias)
  qed
  have other: "map_of env' ''MINI_API'' = Some [Ident ''MINI_IMPORT'']"
    if "\<not> defined E ''MINI_BUILD_MAIN_LIB''"
    using that s(5) by simp
  show ?thesis using s(1) s(2) s(4) unix main other by simp
qed

text \<open>
  The theorem at three builds with \<^verbatim>\<open>NO_EXPORT\<close>: GNU C on a platform other than
  Windows, the main library built statically on Windows, and a user of the shared library
  on Windows.
\<close>

theorem Export_h_NO_EXPORT_witness:
  "(\<not> defined [(''__GNUC__'', [PPNumber ''11'']), (''NO_EXPORT'', [])] ''TACTICS_MINI_MACROS_EXPORT_H'' \<and>
    defined (at_platform_test [] [(''__GNUC__'', [PPNumber ''11'']), (''NO_EXPORT'', [])]) ''NO_EXPORT'' \<and>
    \<not> defined (at_platform_test [] [(''__GNUC__'', [PPNumber ''11'']), (''NO_EXPORT'', [])]) ''_WIN32'' \<and>
    \<not> defined (exec_all (Export_h []) [(''__GNUC__'', [PPNumber ''11'']), (''NO_EXPORT'', [])])
        ''MINI_EXPORT'' \<and>
    expand (exec_all (Export_h []) [(''__GNUC__'', [PPNumber ''11'']), (''NO_EXPORT'', [])])
        [Ident ''MINI_API''] = [Ident ''MINI_EXPORT'']) \<and>
   (\<not> defined [(''_WIN32'', [PPNumber ''1'']), (''NO_EXPORT'', []), (''MINI_BUILD_MAIN_LIB'', [])]
        ''TACTICS_MINI_MACROS_EXPORT_H'' \<and>
    defined (at_platform_test []
        [(''_WIN32'', [PPNumber ''1'']), (''NO_EXPORT'', []), (''MINI_BUILD_MAIN_LIB'', [])]) ''NO_EXPORT'' \<and>
    defined (at_platform_test []
        [(''_WIN32'', [PPNumber ''1'']), (''NO_EXPORT'', []), (''MINI_BUILD_MAIN_LIB'', [])]) ''_WIN32'' \<and>
    defined (at_platform_test []
        [(''_WIN32'', [PPNumber ''1'']), (''NO_EXPORT'', []), (''MINI_BUILD_MAIN_LIB'', [])])
        ''MINI_BUILD_MAIN_LIB'' \<and>
    map_of (exec_all (Export_h [])
        [(''_WIN32'', [PPNumber ''1'']), (''NO_EXPORT'', []), (''MINI_BUILD_MAIN_LIB'', [])])
        ''MINI_IMPORT'' = Some [] \<and>
    expand (exec_all (Export_h [])
        [(''_WIN32'', [PPNumber ''1'']), (''NO_EXPORT'', []), (''MINI_BUILD_MAIN_LIB'', [])])
        [Ident ''MINI_API''] = [Ident ''MINI_EXPORT'']) \<and>
   (\<not> defined [(''_WIN32'', [PPNumber ''1'']), (''NO_EXPORT'', []), (''MINI_BUILD_SHARED_LIBS'', [])]
        ''TACTICS_MINI_MACROS_EXPORT_H'' \<and>
    defined (at_platform_test []
        [(''_WIN32'', [PPNumber ''1'']), (''NO_EXPORT'', []), (''MINI_BUILD_SHARED_LIBS'', [])]) ''NO_EXPORT'' \<and>
    defined (at_platform_test []
        [(''_WIN32'', [PPNumber ''1'']), (''NO_EXPORT'', []), (''MINI_BUILD_SHARED_LIBS'', [])]) ''_WIN32'' \<and>
    \<not> defined (at_platform_test []
        [(''_WIN32'', [PPNumber ''1'']), (''NO_EXPORT'', []), (''MINI_BUILD_SHARED_LIBS'', [])])
        ''MINI_BUILD_MAIN_LIB'' \<and>
    map_of (exec_all (Export_h [])
        [(''_WIN32'', [PPNumber ''1'']), (''NO_EXPORT'', []), (''MINI_BUILD_SHARED_LIBS'', [])])
        ''MINI_IMPORT'' = Some (declspec ''dllimport'') \<and>
    map_of (exec_all (Export_h [])
        [(''_WIN32'', [PPNumber ''1'']), (''NO_EXPORT'', []), (''MINI_BUILD_SHARED_LIBS'', [])])
        ''MINI_API'' = Some [Ident ''MINI_IMPORT''])"
proof -
  let ?U = "[(''__GNUC__'', [PPNumber ''11'']), (''NO_EXPORT'', [])]"
  let ?W = "[(''_WIN32'', [PPNumber ''1'']), (''NO_EXPORT'', []), (''MINI_BUILD_MAIN_LIB'', [])]"
  let ?S = "[(''_WIN32'', [PPNumber ''1'']), (''NO_EXPORT'', []), (''MINI_BUILD_SHARED_LIBS'', [])]"
  note ev = at_platform_test_def include_cmake_macros_def defined_def map_of_update_eq
  have u1: "\<not> defined ?U ''TACTICS_MINI_MACROS_EXPORT_H''"
    by (simp add: defined_def)
  have u2: "defined (at_platform_test [] ?U) ''NO_EXPORT''"
    by (simp add: ev)
  have u3: "\<not> defined (at_platform_test [] ?U) ''_WIN32''"
    by (simp add: ev)
  have w1: "\<not> defined ?W ''TACTICS_MINI_MACROS_EXPORT_H''"
    by (simp add: defined_def)
  have w2: "defined (at_platform_test [] ?W) ''NO_EXPORT''"
    by (simp add: ev)
  have w3: "defined (at_platform_test [] ?W) ''_WIN32''"
    by (simp add: ev)
  have w4: "defined (at_platform_test [] ?W) ''MINI_BUILD_MAIN_LIB''"
    by (simp add: ev)
  have w5: "\<not> defined (at_platform_test [] ?W) ''MINI_BUILD_SHARED_LIBS''"
    by (simp add: ev)
  have s1: "\<not> defined ?S ''TACTICS_MINI_MACROS_EXPORT_H''"
    by (simp add: defined_def)
  have s2: "defined (at_platform_test [] ?S) ''NO_EXPORT''"
    by (simp add: ev)
  have s3: "defined (at_platform_test [] ?S) ''_WIN32''"
    by (simp add: ev)
  have s4: "\<not> defined (at_platform_test [] ?S) ''MINI_BUILD_MAIN_LIB''"
    by (simp add: ev)
  have s5: "defined (at_platform_test [] ?S) ''MINI_BUILD_SHARED_LIBS''"
    by (simp add: ev)
  show ?thesis
    using Export_h_NO_EXPORT [OF u1 u2 refl refl] Export_h_NO_EXPORT [OF w1 w2 refl refl]
      Export_h_NO_EXPORT [OF s1 s2 refl refl]
      u1 u2 u3 w1 w2 w3 w4 w5 s1 s2 s3 s4 s5
    by simp
qed

section \<open>Kernel Cache: the second call is served from the cache\<close>

text \<open>
  Claim C1. From a cache with no entry for the key of a Module and a Target Descriptor,
  two calls of \<open>getOrCompile\<close> in a row, the second on the cache the first leaves, both
  return, with the identical result: the identical reference to the Binary Artifact that
  \<open>compileFn\<close> produced when it succeeds (the identical error when it fails); and
  \<open>compileFn\<close> is invoked exactly once across the two calls. A call that finds a ready
  entry returns the entry's artifact and leaves the cache, the count of compilations
  included, as it is.
\<close>

theorem getOrCompile_twice:
  "(entries c (fingerprint M, canonicalKey T) = None \<longrightarrow>
      (\<exists>res c1 c2.
          getOrCompile fingerprint canonicalKey M T compileFn c = Some (res, c1) \<and>
          getOrCompile fingerprint canonicalKey M T compileFn c1 = Some (res, c2) \<and>
          compile_calls c2 = compile_calls c + 1 \<and>
          (case compileFn M T of
             Inr a \<Rightarrow> \<exists>r. res = Inr r \<and> r < length (artifacts c2) \<and> artifacts c2 ! r = a
           | Inl e \<Rightarrow> res = Inl e))) \<and>
   (\<forall>r. entries c (fingerprint M, canonicalKey T) = Some (Ready r) \<longrightarrow>
      getOrCompile fingerprint canonicalKey M T compileFn c = Some (Inr r, c))"
  by (cases "compileFn M T") (simp_all add: getOrCompile_def Let_def)

text \<open>
  The theorem at an empty cache, with the Module and the Target Descriptor themselves as
  fingerprint and key, an elementwise addition for \<^verbatim>\<open>sm_70\<close>, and a compile path that
  succeeds: both calls return reference 0. And at a cache with a ready entry for the key,
  with a compile path that would fail: the call returns the entry's reference.
\<close>

theorem getOrCompile_twice_witness:
  "entries \<lparr>entries = Map.empty, artifacts = [], compile_calls = 0\<rparr>
     ([Operation ''add'' [0, 1] [] []], \<lparr>family = NVPTX, chip = ''sm_70'', features = {}\<rparr>) = None \<and>
   (\<exists>c1 c2.
      getOrCompile (\<lambda>M. M) (\<lambda>T. T) [Operation ''add'' [0, 1] [] []]
        \<lparr>family = NVPTX, chip = ''sm_70'', features = {}\<rparr>
        (\<lambda>M T. Inr \<lparr>machine_code = [1, 2, 3], entry_point = ''kernel'',
                     resources = \<lparr>registers = 8, shared_memory = 0, block_dims = [1]\<rparr>\<rparr>)
        \<lparr>entries = Map.empty, artifacts = [], compile_calls = 0\<rparr> = Some (Inr 0, c1) \<and>
      getOrCompile (\<lambda>M. M) (\<lambda>T. T) [Operation ''add'' [0, 1] [] []]
        \<lparr>family = NVPTX, chip = ''sm_70'', features = {}\<rparr>
        (\<lambda>M T. Inr \<lparr>machine_code = [1, 2, 3], entry_point = ''kernel'',
                     resources = \<lparr>registers = 8, shared_memory = 0, block_dims = [1]\<rparr>\<rparr>)
        c1 = Some (Inr 0, c2) \<and>
      compile_calls c2 = 1) \<and>
   entries
     \<lparr>entries = [([Operation ''add'' [0, 1] [] []], \<lparr>family = AMDGPU, chip = ''gfx90a'', features = {}\<rparr>) \<mapsto> Ready 0],
      artifacts = [\<lparr>machine_code = [7], entry_point = ''kernel'',
                    resources = \<lparr>registers = 4, shared_memory = 0, block_dims = [1]\<rparr>\<rparr>],
      compile_calls = 1\<rparr>
     ([Operation ''add'' [0, 1] [] []], \<lparr>family = AMDGPU, chip = ''gfx90a'', features = {}\<rparr>) = Some (Ready 0) \<and>
   getOrCompile (\<lambda>M. M) (\<lambda>T. T) [Operation ''add'' [0, 1] [] []]
     \<lparr>family = AMDGPU, chip = ''gfx90a'', features = {}\<rparr> (\<lambda>M T. Inl (CodegenFailure ''unused''))
     \<lparr>entries = [([Operation ''add'' [0, 1] [] []], \<lparr>family = AMDGPU, chip = ''gfx90a'', features = {}\<rparr>) \<mapsto> Ready 0],
      artifacts = [\<lparr>machine_code = [7], entry_point = ''kernel'',
                    resources = \<lparr>registers = 4, shared_memory = 0, block_dims = [1]\<rparr>\<rparr>],
      compile_calls = 1\<rparr>
   = Some (Inr 0,
       \<lparr>entries = [([Operation ''add'' [0, 1] [] []], \<lparr>family = AMDGPU, chip = ''gfx90a'', features = {}\<rparr>) \<mapsto> Ready 0],
        artifacts = [\<lparr>machine_code = [7], entry_point = ''kernel'',
                      resources = \<lparr>registers = 4, shared_memory = 0, block_dims = [1]\<rparr>\<rparr>],
        compile_calls = 1\<rparr>)"
proof -
  let ?ready = "\<lparr>entries = [([Operation ''add'' [0, 1] [] []], \<lparr>family = AMDGPU, chip = ''gfx90a'', features = {}\<rparr>) \<mapsto> Ready 0],
      artifacts = [\<lparr>machine_code = [7], entry_point = ''kernel'',
                    resources = \<lparr>registers = 4, shared_memory = 0, block_dims = [1]\<rparr>\<rparr>],
      compile_calls = 1\<rparr>"
  have hit: "entries ?ready ([Operation ''add'' [0, 1] [] []], \<lparr>family = AMDGPU, chip = ''gfx90a'', features = {}\<rparr>) = Some (Ready 0)"
    by simp
  show ?thesis
    using getOrCompile_twice
      [of "\<lparr>entries = Map.empty, artifacts = [], compile_calls = 0\<rparr>"
          "\<lambda>M. M" "[Operation ''add'' [0, 1] [] []]" "\<lambda>T. T"
          "\<lparr>family = NVPTX, chip = ''sm_70'', features = {}\<rparr>"
          "\<lambda>M T. Inr \<lparr>machine_code = [1, 2, 3], entry_point = ''kernel'',
                       resources = \<lparr>registers = 8, shared_memory = 0, block_dims = [1]\<rparr>\<rparr>"]
      getOrCompile_twice
      [of ?ready "\<lambda>M. M" "[Operation ''add'' [0, 1] [] []]" "\<lambda>T. T"
          "\<lparr>family = AMDGPU, chip = ''gfx90a'', features = {}\<rparr>"
          "\<lambda>M T. Inl (CodegenFailure ''unused'')"]
      hit
    by (simp add: getOrCompile_def Let_def)
qed

section \<open>Backend Selector: dispatch on the family\<close>

text \<open>
  Claim C5. For a Target Descriptor whose architecture family is neither NVPTX nor AMDGPU
  the Backend Selector fails with \<open>UnknownArchitecture\<close>, and so does the dispatch. For
  family NVPTX it selects the NVPTX backend and the dispatch is that backend's lowering;
  for family AMDGPU it selects the AMDGPU backend and the dispatch is that backend's
  lowering: the selected backend is the one of the descriptor's family, never the other.
\<close>

theorem select_backend_by_family:
  "(family T \<noteq> NVPTX \<and> family T \<noteq> AMDGPU \<longrightarrow>
      select_backend T = Inl UnknownArchitecture \<and>
      dispatch impls M T = Inl UnknownArchitecture) \<and>
   (family T = NVPTX \<longrightarrow>
      select_backend T = Inr NVPTXBackend \<and>
      dispatch impls M T = lower NVPTXBackend (impls NVPTXBackend) M T) \<and>
   (family T = AMDGPU \<longrightarrow>
      select_backend T = Inr AMDGPUBackend \<and>
      dispatch impls M T = lower AMDGPUBackend (impls AMDGPUBackend) M T) \<and>
   (\<forall>b. select_backend T = Inr b \<longrightarrow> backend_family b = family T)"
  by (cases "family T") (auto simp: select_backend_def dispatch_def)

text \<open>The theorem at three descriptors: one of each supported family, and one of neither.\<close>

theorem select_backend_by_family_witness:
  "family \<lparr>family = NVPTX, chip = ''sm_70'', features = {}\<rparr> = NVPTX \<and>
   select_backend \<lparr>family = NVPTX, chip = ''sm_70'', features = {}\<rparr> = Inr NVPTXBackend \<and>
   family \<lparr>family = AMDGPU, chip = ''gfx90a'', features = {}\<rparr> = AMDGPU \<and>
   select_backend \<lparr>family = AMDGPU, chip = ''gfx90a'', features = {}\<rparr> = Inr AMDGPUBackend \<and>
   family \<lparr>family = OtherFamily ''SPIRV'', chip = ''generic'', features = {}\<rparr> \<noteq> NVPTX \<and>
   family \<lparr>family = OtherFamily ''SPIRV'', chip = ''generic'', features = {}\<rparr> \<noteq> AMDGPU \<and>
   select_backend \<lparr>family = OtherFamily ''SPIRV'', chip = ''generic'', features = {}\<rparr>
     = Inl UnknownArchitecture"
  using select_backend_by_family [of "\<lparr>family = NVPTX, chip = ''sm_70'', features = {}\<rparr>"]
    select_backend_by_family [of "\<lparr>family = AMDGPU, chip = ''gfx90a'', features = {}\<rparr>"]
    select_backend_by_family
      [of "\<lparr>family = OtherFamily ''SPIRV'', chip = ''generic'', features = {}\<rparr>"]
  by simp

section \<open>Lowering: an opcode without a translation\<close>









end
